theory Spec2Isabelle
  imports Complex_Main "HOL-Library.AList" "HOL-Library.Multiset" "HOL-Library.Option_ord"
begin

section \<open>Keyword opportunity analyzer (old-way.py)\<close>

text \<open>
  The class \<open>KeywordOpportunityAnalyzer\<close> of \<open>old-way.py\<close> loads a table of keyword
  metrics, normalises three of its columns, keeps the rows that pass three thresholds,
  scores and ranks them, summarises them and exports them.

  Conventions of the embedding:
  \<^item> a Python float is a real number, and the float value NaN (pandas' missing value) is
    \<open>None\<close> of \<open>real option\<close>; the rounding error of float64 arithmetic and the infinite
    floats are outside the model;
  \<^item> a raised exception is the \<open>Inl\<close> branch of a sum type;
  \<^item> the table a method mutates is returned next to its result;
  \<^item> what the code takes from pandas and numpy (column lookup and assignment,
    \<open>to_numeric\<close>, the \<open>.str\<close> accessor, boolean indexing, \<open>mean\<close>, \<open>head\<close>) is
    modelled below, operation by operation; the text-to-number conversion of
    \<open>to_numeric\<close> and the permutation computed by \<open>sort_values\<close> are parameters.
\<close>

subsection \<open>Exceptions\<close>

datatype exc_type =
  Exception | ValueError | KeyError | AttributeError | TypeError
  | FileNotFoundError | ParserError

text \<open>
  An exception has a class and the text \<open>str\<close> gives for it. One raised inside an
  \<open>except\<close> block also carries the exception being handled, as its \<open>__context__\<close>.
\<close>

datatype py_exception =
  PyExc (exc_class: exc_type) (exc_str: string)
  | PyExcDuring (exc_class: exc_type) (exc_str: string) (exc_context: py_exception)

subsection \<open>Tables\<close>

text \<open>
  A column (\<open>pandas.Series\<close>) is either numeric (dtype float64, NaN for a missing cell)
  or text (dtype object, holding strings, NaN for a missing cell). A table
  (\<open>pandas.DataFrame\<close>) has row labels and named columns, in order.
\<close>

datatype series = Float64 "real option list" | Object "string option list"

datatype cell = Num real | Text string | NaN

record dataframe =
  index :: "nat list"
  columns :: "(string \<times> series) list"

fun series_len :: "series \<Rightarrow> nat" where
  "series_len (Float64 xs) = length xs"
| "series_len (Object xs) = length xs"

definition wf_dataframe :: "dataframe \<Rightarrow> bool" where
  "wf_dataframe df \<longleftrightarrow>
     distinct (index df) \<and> distinct (map fst (columns df)) \<and>
     list_all (\<lambda>kv. series_len (snd kv) = length (index df)) (columns df)"

text \<open>\<open>df[key]\<close>: the column, or KeyError; \<open>str\<close> of a KeyError is the quoted key.\<close>

definition getitem :: "dataframe \<Rightarrow> string \<Rightarrow> py_exception + series" where
  "getitem df key =
     (case map_of (columns df) key of
        None \<Rightarrow> Inl (PyExc KeyError ([CHR 0x27] @ key @ [CHR 0x27]))
      | Some s \<Rightarrow> Inr s)"

text \<open>\<open>df[key] = s\<close>: replaces the column in place, or appends a new last column.\<close>

definition setitem :: "dataframe \<Rightarrow> string \<Rightarrow> series \<Rightarrow> dataframe" where
  "setitem df key s = df\<lparr>columns := AList.update key s (columns df)\<rparr>"

text \<open>
  \<open>pd.to_numeric(s, errors='coerce')\<close>: a numeric column is returned as it is; in a text
  column every cell is converted by \<open>parse\<close>, and a cell that is missing or does not
  convert becomes NaN. No exception is raised.
\<close>

fun to_numeric :: "(string \<Rightarrow> real option) \<Rightarrow> series \<Rightarrow> real option list" where
  "to_numeric parse (Float64 xs) = xs"
| "to_numeric parse (Object xs) = map (\<lambda>c. Option.bind c parse) xs"

text \<open>
  \<open>s.str.replace(pat, '')\<close> for a one-character pattern: the \<open>.str\<close> accessor exists
  on text columns only, and reading it on a numeric column raises AttributeError; on a
  text column every occurrence of the character is removed from every string, and a
  missing cell stays missing.
\<close>

fun str_replace :: "char \<Rightarrow> series \<Rightarrow> py_exception + series" where
  "str_replace pat (Float64 xs) =
     Inl (PyExc AttributeError ''Can only use .str accessor with string values!'')"
| "str_replace pat (Object xs) =
     Inr (Object (map (map_option (filter (\<lambda>ch. ch \<noteq> pat))) xs))"

text \<open>Comparison of a numeric column with a number: False at NaN.\<close>

definition ge_scalar :: "real option list \<Rightarrow> real \<Rightarrow> bool list" where
  "ge_scalar xs t = map (\<lambda>x. case x of None \<Rightarrow> False | Some v \<Rightarrow> t \<le> v) xs"

definition le_scalar :: "real option list \<Rightarrow> real \<Rightarrow> bool list" where
  "le_scalar xs t = map (\<lambda>x. case x of None \<Rightarrow> False | Some v \<Rightarrow> v \<le> t) xs"

definition and_mask :: "bool list \<Rightarrow> bool list \<Rightarrow> bool list" where
  "and_mask xs ys = map (\<lambda>(x, y). x \<and> y) (zip xs ys)"

text \<open>\<open>df[mask]\<close>: the rows whose mask is True, labels and order kept.\<close>

definition select_mask :: "bool list \<Rightarrow> 'a list \<Rightarrow> 'a list" where
  "select_mask keep xs = map snd (filter fst (zip keep xs))"

fun series_select :: "bool list \<Rightarrow> series \<Rightarrow> series" where
  "series_select keep (Float64 xs) = Float64 (select_mask keep xs)"
| "series_select keep (Object xs) = Object (select_mask keep xs)"

definition boolean_index :: "dataframe \<Rightarrow> bool list \<Rightarrow> dataframe" where
  "boolean_index df keep =
     \<lparr>index = select_mask keep (index df),
      columns = map (\<lambda>(k, s). (k, series_select keep s)) (columns df)\<rparr>"

text \<open>Rows taken by position, in the order of the positions.\<close>

fun series_take :: "nat list \<Rightarrow> series \<Rightarrow> series" where
  "series_take ps (Float64 xs) = Float64 (map ((!) xs) ps)"
| "series_take ps (Object xs) = Object (map ((!) xs) ps)"

definition take_rows :: "nat list \<Rightarrow> dataframe \<Rightarrow> dataframe" where
  "take_rows ps df =
     \<lparr>index = map ((!) (index df)) ps,
      columns = map (\<lambda>(k, s). (k, series_take ps s)) (columns df)\<rparr>"

text \<open>
  \<open>sort_values(by, ascending=False)\<close> computes a permutation of the row positions from
  the key column and takes the rows in that order. The code passes no \<open>kind\<close>, so the
  permutation is the one of the library's default sort, which is a function of the keys
  and puts them in descending order, NaN last (the order of \<open>real option\<close>, where
  \<open>None\<close> is least); pandas documents the default kind as not stable. The permutation
  is the parameter \<open>argsort\<close>, and this is what is known of it.
\<close>

definition argsort_desc_contract :: "(real option list \<Rightarrow> nat list) \<Rightarrow> bool" where
  "argsort_desc_contract argsort \<longleftrightarrow>
     (\<forall>keys. mset (argsort keys) = mset [0..<length keys] \<and>
             sorted_wrt (\<lambda>a b. b \<le> a) (map ((!) keys) (argsort keys)))"

text \<open>
  \<open>Series.mean()\<close> skips NaN; the mean of no values is NaN. The mean of a text column
  that holds a string raises TypeError.
\<close>

definition mean_skipna :: "real option list \<Rightarrow> real option" where
  "mean_skipna xs =
     (let ys = concat (map (\<lambda>x. case x of None \<Rightarrow> [] | Some y \<Rightarrow> [y]) xs)
      in if ys = [] then None else Some (sum_list ys / real (length ys)))"

fun series_mean :: "series \<Rightarrow> py_exception + real option" where
  "series_mean (Float64 xs) = Inr (mean_skipna xs)"
| "series_mean (Object xs) =
     (if list_all (\<lambda>x. x = None) xs then Inr None
      else Inl (PyExc TypeError ''Could not convert string to numeric''))"

fun tolist :: "series \<Rightarrow> cell list" where
  "tolist (Float64 xs) = map (\<lambda>x. case x of None \<Rightarrow> NaN | Some v \<Rightarrow> Num v) xs"
| "tolist (Object xs) = map (\<lambda>x. case x of None \<Rightarrow> NaN | Some s \<Rightarrow> Text s) xs"

fun series_head :: "nat \<Rightarrow> series \<Rightarrow> series" where
  "series_head n (Float64 xs) = Float64 (take n xs)"
| "series_head n (Object xs) = Object (take n xs)"

definition head :: "nat \<Rightarrow> dataframe \<Rightarrow> dataframe" where
  "head n df =
     \<lparr>index = take n (index df),
      columns = map (\<lambda>(k, s). (k, series_head n s)) (columns df)\<rparr>"

subsection \<open>Numbers\<close>

text \<open>
  \<open>round(x, ndigits)\<close> on a float: the nearest multiple of \<open>10 ^ -ndigits\<close>, a tie
  going to the even one.
\<close>

definition round_half_even :: "real \<Rightarrow> int" where
  "round_half_even x =
     (let f = floor x; d = x - of_int f
      in if d < 1 / 2 then f
         else if 1 / 2 < d then f + 1
         else if even f then f else f + 1)"

definition py_round :: "real \<Rightarrow> nat \<Rightarrow> real" where
  "py_round x ndigits = of_int (round_half_even (x * 10 ^ ndigits)) / 10 ^ ndigits"

definition log10 :: "real \<Rightarrow> real" where
  "log10 x = log 10 x"

subsection \<open>The analyzer\<close>

record analyzer =
  min_search_volume :: int
  max_competition :: real
  min_cpc :: real

definition init :: "int \<Rightarrow> real \<Rightarrow> real \<Rightarrow> analyzer" where
  "init msv mc mcpc = \<lparr>min_search_volume = msv, max_competition = mc, min_cpc = mcpc\<rparr>"

definition default_analyzer :: analyzer where
  "default_analyzer = init 1000 (3 / 10) (1 / 2)"

definition required_columns :: "string list" where
  "required_columns =
     [''Keyword'', ''Avg. monthly searches'', ''Competition'', ''Top of page bid (low range)'']"

fun join :: "string \<Rightarrow> string list \<Rightarrow> string" where
  "join sep [] = []"
| "join sep [x] = x"
| "join sep (x # y # ys) = x @ sep @ join sep (y # ys)"

text \<open>
  \<open>load_keyword_data\<close>. What \<open>pd.read_csv(filepath)\<close> does with the file is its
  argument here: the exception it raised, or the table it returned. The ValueError of
  the column check is raised inside the \<open>try\<close>, so the handler catches it too and
  raises \<open>Exception\<close> with the prefixed message; the exception it caught is the
  context of the one it raises.
\<close>

definition load_keyword_data :: "py_exception + dataframe \<Rightarrow> py_exception + dataframe" where
  "load_keyword_data read_csv =
     (case (case read_csv of
              Inl e \<Rightarrow> Inl e
            | Inr df \<Rightarrow>
                if \<not> list_all (\<lambda>col. col \<in> set (map fst (columns df))) required_columns
                then Inl (PyExc ValueError
                            (''CSV must contain columns: '' @ join '', '' required_columns))
                else Inr df) of
        Inl e \<Rightarrow> Inl (PyExcDuring Exception (''Error loading keyword data: '' @ exc_str e) e)
      | Inr df \<Rightarrow> Inr df)"

definition calculate_opportunity_score :: "real \<Rightarrow> real \<Rightarrow> real \<Rightarrow> real" where
  "calculate_opportunity_score search_volume competition cpc =
     (let volume_score = log10 (max search_volume 1) / 5;
          competition_score = 1 - competition;
          cpc_score = min (cpc / 10) 1;
          opportunity_score =
            volume_score * (4 / 10) + competition_score * (4 / 10) + cpc_score * (2 / 10)
      in py_round (opportunity_score * 100) 2)"

text \<open>
  The score of a table row, whose cells are floats that may be NaN: \<open>max\<close>, \<open>min\<close>,
  \<open>log10\<close>, the arithmetic and \<open>round\<close> all return NaN on a NaN argument. The
  row-wise \<open>apply\<close> of lines 83 to 90 returns the column of these scores, one for each
  row, and the empty column for a table without rows.
\<close>

fun score_row :: "real option \<times> real option \<times> real option \<Rightarrow> real option" where
  "score_row (Some v, Some c, Some b) = Some (calculate_opportunity_score v c b)"
| "score_row _ = None"

text \<open>
  \<open>analyze_keywords\<close>. The three assignments of lines 69 to 71 write into the table
  the caller passed, so the table is returned as the first component, as it is when the
  method returns or raises. The mask, the row-wise \<open>apply\<close> and the sort read the
  columns just assigned, which are the lists \<open>comp_n\<close>, \<open>vol_n\<close> and \<open>bid_n\<close>.
\<close>

definition analyze_keywords ::
  "(string \<Rightarrow> real option) \<Rightarrow> (real option list \<Rightarrow> nat list) \<Rightarrow> analyzer \<Rightarrow> dataframe
     \<Rightarrow> dataframe \<times> (py_exception + dataframe)" where
  "analyze_keywords parse argsort self df =
     (case getitem df ''Competition'' of
        Inl e \<Rightarrow> (df, Inl e)
      | Inr comp_raw \<Rightarrow>
          let comp_n = to_numeric parse comp_raw;
              df1 = setitem df ''Competition'' (Float64 comp_n)
          in (case getitem df1 ''Avg. monthly searches'' of
                Inl e \<Rightarrow> (df1, Inl e)
              | Inr vol \<Rightarrow>
                  (case str_replace (CHR '','') vol of
                     Inl e \<Rightarrow> (df1, Inl e)
                   | Inr vol_s \<Rightarrow>
                       let vol_n = to_numeric parse vol_s;
                           df2 = setitem df1 ''Avg. monthly searches'' (Float64 vol_n)
                       in (case getitem df2 ''Top of page bid (low range)'' of
                             Inl e \<Rightarrow> (df2, Inl e)
                           | Inr bid \<Rightarrow>
                               (case str_replace (CHR ''$'') bid of
                                  Inl e \<Rightarrow> (df2, Inl e)
                                | Inr bid_s \<Rightarrow>
                                    let bid_n = to_numeric parse bid_s;
                                        df3 = setitem df2 ''Top of page bid (low range)''
                                                (Float64 bid_n);
                                        mask = and_mask
                                                 (and_mask
                                                    (ge_scalar vol_n
                                                       (of_int (min_search_volume self)))
                                                    (le_scalar comp_n (max_competition self)))
                                                 (ge_scalar bid_n (min_cpc self));
                                        opportunities = boolean_index df3 mask;
                                        scores = map score_row
                                                   (zip (select_mask mask vol_n)
                                                      (zip (select_mask mask comp_n)
                                                         (select_mask mask bid_n)));
                                        opportunities = setitem opportunities
                                                          ''Opportunity Score'' (Float64 scores);
                                        opportunities = take_rows (argsort scores) opportunities
                                    in (df3, Inr opportunities))))))"

text \<open>
  \<open>export_results\<close>. The clock reading, formatted by \<open>strftime('%Y%m%d_%H%M%S')\<close>, is
  the argument \<open>timestamp\<close>. The result is the file written (path and table) and the
  line printed. The local \<open>filename\<close> is assigned and not read again.
\<close>

definition endswith :: "string \<Rightarrow> string \<Rightarrow> bool" where
  "endswith s suffix \<longleftrightarrow>
     length suffix \<le> length s \<and> drop (length s - length suffix) s = suffix"

definition export_results ::
  "string \<Rightarrow> dataframe \<Rightarrow> string \<Rightarrow> (string \<times> dataframe) \<times> string" where
  "export_results timestamp opportunities output_filepath =
     (let filename = ''keyword_opportunities_'' @ timestamp @ ''.csv'';
          output_filepath =
            (if \<not> endswith output_filepath ''.csv'' then output_filepath @ ''.csv''
             else output_filepath)
      in ((output_filepath, opportunities), ''Results exported to: '' @ output_filepath))"

record summary =
  total_opportunities :: nat
  avg_search_volume :: "real option"
  avg_competition :: "real option"
  avg_opportunity_score :: "real option"
  top_keywords :: "cell list"

definition generate_summary :: "dataframe \<Rightarrow> py_exception + summary" where
  "generate_summary opportunities =
     (case getitem opportunities ''Avg. monthly searches'' of
        Inl e \<Rightarrow> Inl e
      | Inr vol \<Rightarrow>
     (case series_mean vol of
        Inl e \<Rightarrow> Inl e
      | Inr avg_vol \<Rightarrow>
     (case getitem opportunities ''Competition'' of
        Inl e \<Rightarrow> Inl e
      | Inr competition \<Rightarrow>
     (case series_mean competition of
        Inl e \<Rightarrow> Inl e
      | Inr avg_comp \<Rightarrow>
     (case getitem opportunities ''Opportunity Score'' of
        Inl e \<Rightarrow> Inl e
      | Inr score \<Rightarrow>
     (case series_mean score of
        Inl e \<Rightarrow> Inl e
      | Inr avg_score \<Rightarrow>
     (case getitem (head 5 opportunities) ''Keyword'' of
        Inl e \<Rightarrow> Inl e
      | Inr kw \<Rightarrow>
          Inr \<lparr>total_opportunities = length (index opportunities),
               avg_search_volume = avg_vol,
               avg_competition = avg_comp,
               avg_opportunity_score = avg_score,
               top_keywords = tolist kw\<rparr>)))))))"

subsection \<open>The scoring formula in the words of the specification\<close>

text \<open>
  The specification writes the score as
  \<open>100 * (0.4*volume_score + 0.4*competition_score + 0.2*cpc_score)\<close>, rounded to two
  decimal places. This definition follows those words; the one above follows the code.
\<close>

definition spec_opportunity_score :: "real \<Rightarrow> real \<Rightarrow> real \<Rightarrow> real" where
  "spec_opportunity_score v c b =
     py_round (100 * (4 / 10 * (log10 (max v 1) / 5) + 4 / 10 * (1 - c)
                      + 2 / 10 * min (b / 10) 1)) 2"

subsection \<open>Notions used to state the properties\<close>

text \<open>
  The normalized search volume and cpc of a text cell: what line 70 and line 71 compute
  for it, the character removed and the rest converted. A missing cell stays missing.
\<close>

definition normalize_volume :: "(string \<Rightarrow> real option) \<Rightarrow> string option \<Rightarrow> real option" where
  "normalize_volume parse c =
     Option.bind (map_option (filter (\<lambda>ch. ch \<noteq> CHR '','')) c) parse"

definition normalize_cpc :: "(string \<Rightarrow> real option) \<Rightarrow> string option \<Rightarrow> real option" where
  "normalize_cpc parse c =
     Option.bind (map_option (filter (\<lambda>ch. ch \<noteq> CHR ''$'')) c) parse"

text \<open>
  The filter predicate in the words of the specification: all three normalized fields
  are present, and
  \<open>volume >= min_search_volume AND competition <= max_competition AND cpc >= min_cpc\<close>.
\<close>

fun retained :: "analyzer \<Rightarrow> real option \<Rightarrow> real option \<Rightarrow> real option \<Rightarrow> bool" where
  "retained self (Some v) (Some c) (Some b) \<longleftrightarrow>
     of_int (min_search_volume self) \<le> v \<and> c \<le> max_competition self \<and> min_cpc self \<le> b"
| "retained self _ _ _ \<longleftrightarrow> False"

text \<open>The mask of lines 74 to 78, as \<open>analyze_keywords\<close> computes it.\<close>

definition threshold_mask ::
  "analyzer \<Rightarrow> real option list \<Rightarrow> real option list \<Rightarrow> real option list \<Rightarrow> bool list" where
  "threshold_mask self vol_n comp_n bid_n =
     and_mask
       (and_mask (ge_scalar vol_n (of_int (min_search_volume self)))
          (le_scalar comp_n (max_competition self)))
       (ge_scalar bid_n (min_cpc self))"


subsection \<open>Instances of the parameters, for concrete runs\<close>

text \<open>
  A converter for unsigned decimal literals (\<open>1200\<close>, \<open>0.1\<close>); everything else does not
  convert. The converter of pandas accepts more (signs, exponents, blanks around the
  number); the general theorems hold for every converter.
\<close>

definition digit_value :: "char \<Rightarrow> nat option" where
  "digit_value ch =
     (let n = (of_char ch :: nat) in if 48 \<le> n \<and> n \<le> 57 then Some (n - 48) else None)"

fun digits_value :: "nat \<Rightarrow> string \<Rightarrow> nat option" where
  "digits_value acc [] = Some acc"
| "digits_value acc (ch # cs) =
     (case digit_value ch of None \<Rightarrow> None | Some d \<Rightarrow> digits_value (10 * acc + d) cs)"

definition parse_decimal :: "string \<Rightarrow> real option" where
  "parse_decimal s =
     (let ip = takeWhile (\<lambda>ch. ch \<noteq> CHR ''.'') s;
          rest = dropWhile (\<lambda>ch. ch \<noteq> CHR ''.'') s
      in if ip = [] then None
         else case digits_value 0 ip of
                None \<Rightarrow> None
              | Some n \<Rightarrow>
                  (case rest of
                     [] \<Rightarrow> Some (real n)
                   | _ # fp \<Rightarrow>
                       if fp = [] then None
                       else case digits_value 0 fp of
                              None \<Rightarrow> None
                            | Some m \<Rightarrow> Some (real n + real m / 10 ^ length fp)))"

text \<open>
  A sort that puts the keys in descending order and keeps rows with equal keys in their
  input order.
\<close>

definition stable_argsort :: "real option list \<Rightarrow> nat list" where
  "stable_argsort keys = rev (sort_key ((!) keys) (rev [0..<length keys]))"

subsection \<open>Example tables\<close>

definition shoes_searches :: "string option list" where
  "shoes_searches = [Some ''1,000'', Some ''10,000'', Some ''500'', Some ''10,000'']"

definition shoes_competition :: "string option list" where
  "shoes_competition = [Some ''0.1'', Some ''0.1'', Some ''0.1'', Some ''N/A'']"

definition shoes_bids :: "string option list" where
  "shoes_bids = [Some ''$2.5'', Some ''$2.5'', Some ''$2.5'', Some ''$2.5'']"

definition shoes_table :: dataframe where
  "shoes_table =
     \<lparr>index = [0, 1, 2, 3],
      columns =
        [(''Keyword'', Object [Some ''running shoes'', Some ''trail shoes'',
                               Some ''cheap shoes'', Some ''shoe laces'']),
         (''Avg. monthly searches'', Object shoes_searches),
         (''Competition'', Object shoes_competition),
         (''Top of page bid (low range)'', Object shoes_bids)]\<rparr>"

text \<open>The same table after \<open>analyze_keywords\<close> has run on it, and the table it returns.\<close>

definition shoes_normalized :: dataframe where
  "shoes_normalized =
     \<lparr>index = [0, 1, 2, 3],
      columns =
        [(''Keyword'', Object [Some ''running shoes'', Some ''trail shoes'',
                               Some ''cheap shoes'', Some ''shoe laces'']),
         (''Avg. monthly searches'', Float64 [Some 1000, Some 10000, Some 500, Some 10000]),
         (''Competition'', Float64 [Some (1 / 10), Some (1 / 10), Some (1 / 10), None]),
         (''Top of page bid (low range)'', Float64 [Some (5 / 2), Some (5 / 2),
                                                    Some (5 / 2), Some (5 / 2)])]\<rparr>"

definition shoes_opportunities :: dataframe where
  "shoes_opportunities =
     \<lparr>index = [1, 0],
      columns =
        [(''Keyword'', Object [Some ''trail shoes'', Some ''running shoes'']),
         (''Avg. monthly searches'', Float64 [Some 10000, Some 1000]),
         (''Competition'', Float64 [Some (1 / 10), Some (1 / 10)]),
         (''Top of page bid (low range)'', Float64 [Some (5 / 2), Some (5 / 2)]),
         (''Opportunity Score'', Float64 [Some 73, Some 65])]\<rparr>"

definition empty_opportunities :: dataframe where
  "empty_opportunities =
     \<lparr>index = [],
      columns =
        [(''Keyword'', Object []),
         (''Avg. monthly searches'', Float64 []),
         (''Competition'', Float64 []),
         (''Top of page bid (low range)'', Float64 []),
         (''Opportunity Score'', Float64 [])]\<rparr>"

text \<open>
  A table whose search volumes were written without grouping commas, so that the
  column was read as numbers.
\<close>

definition numeric_volume_table :: dataframe where
  "numeric_volume_table =
     \<lparr>index = [0],
      columns =
        [(''Keyword'', Object [Some ''running shoes'']),
         (''Avg. monthly searches'', Float64 [Some 1200]),
         (''Competition'', Object [Some ''N/A'']),
         (''Top of page bid (low range)'', Object [Some ''$2.5''])]\<rparr>"

text \<open>
  A table that passes the load step, with numeric search volumes, whose only row passes
  every default threshold.
\<close>

definition numeric_passing_table :: dataframe where
  "numeric_passing_table =
     \<lparr>index = [0],
      columns =
        [(''Keyword'', Object [Some ''running shoes'']),
         (''Avg. monthly searches'', Float64 [Some 1200]),
         (''Competition'', Float64 [Some (1 / 10)]),
         (''Top of page bid (low range)'', Object [Some ''$2.5''])]\<rparr>"

text \<open>A table whose first row fails the volume threshold.\<close>

definition laces_table :: dataframe where
  "laces_table =
     \<lparr>index = [0, 1, 2],
      columns =
        [(''Keyword'', Object [Some ''cheap shoes'', Some ''running shoes'', Some ''trail shoes'']),
         (''Avg. monthly searches'', Object [Some ''500'', Some ''1,000'', Some ''10,000'']),
         (''Competition'', Object [Some ''0.1'', Some ''0.1'', Some ''0.1'']),
         (''Top of page bid (low range)'', Object [Some ''$2.5'', Some ''$2.5'', Some ''$2.5''])]\<rparr>"


section \<open>Rounding and logarithm\<close>

lemma round_half_even_of_int: "round_half_even (of_int n) = n"
  by (simp add: round_half_even_def)

lemma round_half_even_bounds:
  "floor x \<le> round_half_even x" "round_half_even x \<le> floor x + 1"
  by (simp_all add: round_half_even_def Let_def)

lemma round_half_even_mono:
  assumes "x \<le> y"
  shows "round_half_even x \<le> round_half_even y"
proof (cases "floor x < floor y")
  case True
  have "round_half_even x \<le> floor x + 1" by (rule round_half_even_bounds)
  also have "\<dots> \<le> floor y" using True by simp
  also have "\<dots> \<le> round_half_even y" by (rule round_half_even_bounds)
  finally show ?thesis .
next
  case False
  moreover have "floor x \<le> floor y" using assms by (rule floor_mono)
  ultimately have eq: "floor x = floor y" by simp
  show ?thesis
    using assms unfolding round_half_even_def Let_def eq by auto
qed

lemma round_half_even_unique:
  assumes "of_int n - 1 / 2 < x" "x < of_int n + 1 / 2"
  shows "round_half_even x = n"
proof (cases "of_int n \<le> x")
  case True
  then have "floor x = n" using assms by (simp add: floor_unique)
  then show ?thesis using assms by (simp add: round_half_even_def Let_def)
next
  case False
  then have "floor x = n - 1" using assms by (intro floor_unique) auto
  then show ?thesis using assms False by (simp add: round_half_even_def Let_def)
qed

lemma py_round_mono: "x \<le> y \<Longrightarrow> py_round x n \<le> py_round y n"
  unfolding py_round_def
  by (intro divide_right_mono) (simp_all add: round_half_even_mono)

lemma py_round_nonneg: "0 \<le> x \<Longrightarrow> 0 \<le> py_round x n"
  using py_round_mono [of 0 x n] round_half_even_of_int [of 0]
  by (simp add: py_round_def)

lemma log10_mono: "0 < x \<Longrightarrow> x \<le> y \<Longrightarrow> log10 x \<le> log10 y"
  unfolding log10_def by simp

lemma log10_nonneg: "1 \<le> x \<Longrightarrow> 0 \<le> log10 x"
  unfolding log10_def by simp

lemma score_mono_volume:
  "v \<le> v' \<Longrightarrow> calculate_opportunity_score v c b \<le> calculate_opportunity_score v' c b"
  unfolding calculate_opportunity_score_def Let_def
  by (intro py_round_mono mult_right_mono add_mono divide_right_mono log10_mono) simp_all

lemma score_mono_cpc:
  "b \<le> b' \<Longrightarrow> calculate_opportunity_score v c b \<le> calculate_opportunity_score v c b'"
  unfolding calculate_opportunity_score_def Let_def
  by (intro py_round_mono mult_right_mono add_mono) simp_all

lemma score_antimono_competition:
  "c \<le> c' \<Longrightarrow> calculate_opportunity_score v c' b \<le> calculate_opportunity_score v c b"
  unfolding calculate_opportunity_score_def Let_def
  by (intro py_round_mono mult_right_mono add_mono) simp_all

lemma score_flat_above_cap:
  "10 \<le> b \<Longrightarrow> 10 \<le> b' \<Longrightarrow>
     calculate_opportunity_score v c b = calculate_opportunity_score v c b'"
  unfolding calculate_opportunity_score_def Let_def by simp

lemma score_nonneg:
  assumes "c \<le> 1" "0 \<le> b"
  shows "0 \<le> calculate_opportunity_score v c b"
proof -
  have "0 \<le> log10 (max v 1)" by (rule log10_nonneg) simp
  moreover have "0 \<le> min (b / 10) 1" using assms by simp
  ultimately show ?thesis
    unfolding calculate_opportunity_score_def Let_def
    using assms by (intro py_round_nonneg mult_nonneg_nonneg add_nonneg_nonneg) simp_all
qed

lemma log10_pow10: "log10 (10 ^ n) = real n"
  unfolding log10_def by (rule log_pow_cancel) simp_all

lemma log10_power: "0 < x \<Longrightarrow> log10 (x ^ n) = real n * log10 x"
  unfolding log10_def by (rule log_nat_power) simp

lemma log10_less_iff: "0 < x \<Longrightarrow> 0 < y \<Longrightarrow> log10 x < log10 y \<longleftrightarrow> x < y"
  unfolding log10_def by (rule log_less_cancel_iff) simp_all

lemma log10_lower:
  assumes "0 < x" "0 < n" "10 ^ m < x ^ n"
  shows "real m / real n < log10 x"
proof -
  have "log10 (10 ^ m) < log10 (x ^ n)"
    using assms by (subst log10_less_iff) simp_all
  then have "real m < real n * log10 x"
    using assms by (simp only: log10_pow10 log10_power)
  then show ?thesis using assms by (simp add: field_simps)
qed

lemma log10_upper:
  assumes "0 < x" "0 < n" "x ^ n < 10 ^ m"
  shows "log10 x < real m / real n"
proof -
  have "log10 (x ^ n) < log10 (10 ^ m)"
    using assms by (subst log10_less_iff) simp_all
  then have "real n * log10 x < real m"
    using assms by (simp only: log10_pow10 log10_power)
  then show ?thesis using assms by (simp add: field_simps)
qed

text \<open>\<open>log10 12\<close> lies between 69/64 and 109/101, by comparing integer powers.\<close>

lemma log10_12_lower: "69 / 64 < log10 12"
  using log10_lower [of 12 64 69] by simp

lemma log10_12_upper: "log10 12 < 109 / 101"
  using log10_upper [of 12 101 109] by simp

lemma log10_1200: "log10 1200 = 2 + log10 12"
proof -
  have "log10 (10 ^ 2 * 12) = log10 (10 ^ 2) + log10 12"
    unfolding log10_def by (rule log_mult_pos) simp_all
  also have "log10 (10 ^ 2) = 2"
    using log10_pow10 [of 2] by simp
  finally show ?thesis by simp
qed

lemma log10_thousand: "log10 1000 = 3"
  using log10_pow10 [of 3] by simp

lemma log10_ten_thousand: "log10 10000 = 4"
  using log10_pow10 [of 4] by simp

lemma log10_million: "log10 1000000 = 6"
  using log10_pow10 [of 6] by simp

section \<open>The opportunity score\<close>

lemma score_1200: "calculate_opportunity_score 1200 (1 / 10) (5 / 2) = 6563 / 100"
proof -
  have r: "round_half_even (800 * log10 12 + 5700) = 6563"
    using log10_12_lower log10_12_upper by (intro round_half_even_unique) simp_all
  have a: "(log10 (max 1200 1) / 5 * (4 / 10) + (1 - 1 / 10) * (4 / 10)
              + min (5 / 2 / 10) 1 * (2 / 10)) * 100 * 10 ^ 2
           = 800 * log10 12 + 5700"
    by (simp add: log10_1200)
  show ?thesis
    unfolding calculate_opportunity_score_def Let_def py_round_def a r by simp
qed

lemma score_1000: "calculate_opportunity_score 1000 (1 / 10) (5 / 2) = 65"
  unfolding calculate_opportunity_score_def Let_def py_round_def
  using round_half_even_of_int [of 6500] by (simp add: log10_thousand)

lemma score_10000: "calculate_opportunity_score 10000 (1 / 10) (5 / 2) = 73"
  unfolding calculate_opportunity_score_def Let_def py_round_def
  using round_half_even_of_int [of 7300] by (simp add: log10_ten_thousand)

lemma score_eq_spec: "calculate_opportunity_score v c b = spec_opportunity_score v c b"
  unfolding calculate_opportunity_score_def spec_opportunity_score_def Let_def
  by (simp add: algebra_simps)

text \<open>
  C1 as the specification states it fails: at v = 1200, c = 0.1, b = 2.5 the score is
  not 70.62.
\<close>

theorem score_example_not_70_62:
  "calculate_opportunity_score 1200 (1 / 10) (5 / 2) \<noteq> 7062 / 100"
  by (simp add: score_1200)

text \<open>
  C10. 100 is not an upper bound of the score on in-range arguments: for search volume
  1000000, competition 0 and cpc 10 the score is 108.
\<close>

theorem score_exceeds_100:
  "calculate_opportunity_score 1000000 0 10 = 108 \<and>
   100 < calculate_opportunity_score 1000000 0 10"
proof -
  have "calculate_opportunity_score 1000000 0 10 = 108"
    unfolding calculate_opportunity_score_def Let_def py_round_def
    using round_half_even_of_int [of 10800] by (simp add: log10_million)
  then show ?thesis by simp
qed

text \<open>
  C7. For a valid record (volume at least 0, competition in [0, 1], cpc at least 0) the
  score is at least 0; it does not decrease when the volume grows, does not decrease
  when the cpc grows, does not increase when the competition grows, the other two
  arguments fixed; and above a cpc of 10 it does not depend on the cpc.
\<close>

theorem score_nonneg_and_monotone:
  assumes "0 \<le> v" "0 \<le> c" "c \<le> 1" "0 \<le> b"
  shows "0 \<le> calculate_opportunity_score v c b \<and>
         (\<forall>v'. v \<le> v' \<longrightarrow>
            calculate_opportunity_score v c b \<le> calculate_opportunity_score v' c b) \<and>
         (\<forall>b'. b \<le> b' \<longrightarrow>
            calculate_opportunity_score v c b \<le> calculate_opportunity_score v c b') \<and>
         (\<forall>c'. c \<le> c' \<longrightarrow>
            calculate_opportunity_score v c' b \<le> calculate_opportunity_score v c b) \<and>
         (\<forall>b'. 10 \<le> b \<and> 10 \<le> b' \<longrightarrow>
            calculate_opportunity_score v c b = calculate_opportunity_score v c b')"
  using assms
  by (simp add: score_nonneg score_mono_volume score_mono_cpc score_antimono_competition
        score_flat_above_cap)

theorem score_nonneg_and_monotone_witness:
  "0 \<le> calculate_opportunity_score 1000 (1 / 10) (5 / 2) \<and>
   calculate_opportunity_score 1000 (1 / 10) (5 / 2)
     \<le> calculate_opportunity_score 10000 (1 / 10) (5 / 2) \<and>
   calculate_opportunity_score 1000 (1 / 10) (5 / 2)
     \<le> calculate_opportunity_score 1000 (1 / 10) 3 \<and>
   calculate_opportunity_score 1000 (1 / 2) (5 / 2)
     \<le> calculate_opportunity_score 1000 (1 / 10) (5 / 2) \<and>
   calculate_opportunity_score 1000 (1 / 10) 11 = calculate_opportunity_score 1000 (1 / 10) 12"
  using score_nonneg_and_monotone [of 1000 "1 / 10" "5 / 2"]
    score_nonneg_and_monotone [of 1000 "1 / 10" 11]
  by simp

section \<open>Tables\<close>

lemma getitem_Inr_iff: "getitem df key = Inr s \<longleftrightarrow> map_of (columns df) key = Some s"
  by (simp add: getitem_def split: option.splits)

lemma getitem_setitem:
  "getitem (setitem df k s) key = (if key = k then Inr s else getitem df key)"
  by (simp add: getitem_def setitem_def update_conv')

lemma index_setitem: "index (setitem df k s) = index df"
  by (simp add: setitem_def)




lemma select_mask_Nil [simp]: "select_mask [] xs = []" "select_mask keep [] = []"
  by (simp_all add: select_mask_def)

lemma select_mask_Cons [simp]:
  "select_mask (k # keep) (x # xs) = (if k then x # select_mask keep xs else select_mask keep xs)"
  by (simp add: select_mask_def)

lemma length_select_mask:
  "length keep = length xs \<Longrightarrow> length (select_mask keep xs) = length (filter (\<lambda>k. k) keep)"
  by (induction keep xs rule: list_induct2) simp_all

lemma select_mask_zip:
  "length xs = length ys \<Longrightarrow>
     zip (select_mask keep xs) (select_mask keep ys) = select_mask keep (zip xs ys)"
proof (induction keep arbitrary: xs ys)
  case Nil
  then show ?case by simp
next
  case (Cons k keep)
  then show ?case by (cases xs; cases ys) simp_all
qed

lemma set_select_mask:
  "set (select_mask keep xs) = {xs ! i | i. i < length xs \<and> i < length keep \<and> keep ! i}"
  by (force simp: select_mask_def set_zip)

lemma nth_in_select_mask:
  assumes "distinct xs" "i < length xs" "length keep = length xs"
  shows "xs ! i \<in> set (select_mask keep xs) \<longleftrightarrow> keep ! i"
  using assms by (auto simp: set_select_mask nth_eq_iff_index_eq)

lemma mset_take_positions:
  assumes "mset ps = mset [0..<length xs]"
  shows "mset (map ((!) xs) ps) = mset xs"
proof -
  have "mset (map ((!) xs) ps) = image_mset ((!) xs) (mset ps)" by simp
  also have "\<dots> = mset (map ((!) xs) [0..<length xs])" using assms by simp
  also have "\<dots> = mset xs" by (simp add: map_nth)
  finally show ?thesis .
qed

lemma index_take_rows: "index (take_rows ps df) = map ((!) (index df)) ps"
  by (simp add: take_rows_def)

lemma index_boolean_index: "index (boolean_index df keep) = select_mask keep (index df)"
  by (simp add: boolean_index_def)

lemma getitem_take_rows:
  "getitem df key = Inr s \<Longrightarrow> getitem (take_rows ps df) key = Inr (series_take ps s)"
  by (simp add: getitem_Inr_iff take_rows_def map_of_map)

lemma getitem_boolean_index:
  "getitem df key = Inr s \<Longrightarrow> getitem (boolean_index df keep) key = Inr (series_select keep s)"
  by (simp add: getitem_Inr_iff boolean_index_def map_of_map)

lemma wf_series_len:
  assumes "wf_dataframe df" "getitem df key = Inr s"
  shows "series_len s = length (index df)"
proof -
  have "(key, s) \<in> set (columns df)"
    using assms(2) by (simp add: getitem_Inr_iff map_of_SomeD)
  then show ?thesis
    using assms(1) by (auto simp: wf_dataframe_def list_all_iff)
qed

lemma set_update_subset: "set (AList.update k v al) \<subseteq> insert (k, v) (set al)"
  by (induction al) auto

lemma wf_setitem:
  assumes "wf_dataframe df" "series_len s = length (index df)"
  shows "wf_dataframe (setitem df key s)"
  using assms set_update_subset [of key s "columns df"]
  by (auto simp: wf_dataframe_def setitem_def distinct_update list_all_iff)

lemma distinct_select_mask: "distinct xs \<Longrightarrow> distinct (select_mask keep xs)"
proof (induction keep arbitrary: xs)
  case Nil
  then show ?case by simp
next
  case (Cons k keep)
  show ?case
  proof (cases xs)
    case Nil
    then show ?thesis by simp
  next
    case (Cons y ys)
    with Cons.prems Cons.IH [of ys] show ?thesis
      by (auto simp: set_select_mask nth_eq_iff_index_eq in_set_conv_nth)
  qed
qed

lemma series_len_select:
  "length keep = series_len s \<Longrightarrow>
     series_len (series_select keep s) = length (filter (\<lambda>k. k) keep)"
  by (cases s) (simp_all add: length_select_mask)

lemma series_len_take: "series_len (series_take ps s) = length ps"
  by (cases s) simp_all

lemma fst_comp_column_map: "fst \<circ> (\<lambda>(k, s). (k, f s)) = fst"
  by (auto simp: fun_eq_iff)

lemma wf_boolean_index:
  assumes "wf_dataframe df" "length keep = length (index df)"
  shows "wf_dataframe (boolean_index df keep)"
  using assms
  by (auto simp: wf_dataframe_def boolean_index_def distinct_select_mask fst_comp_column_map
        list_all_iff series_len_select length_select_mask)

lemma wf_take_rows:
  assumes "wf_dataframe df" "mset ps = mset [0..<length (index df)]"
  shows "wf_dataframe (take_rows ps df)"
proof -
  have "mset (map ((!) (index df)) ps) = mset (index df)"
    using assms(2) by (rule mset_take_positions)
  then have "distinct (map ((!) (index df)) ps)"
    using assms(1) by (metis mset_eq_imp_distinct_iff wf_dataframe_def)
  then show ?thesis
    using assms(1)
    by (auto simp: wf_dataframe_def take_rows_def fst_comp_column_map list_all_iff
          series_len_take)
qed

lemma select_mask_map: "select_mask keep (map f xs) = map f (select_mask keep xs)"
proof (induction keep arbitrary: xs)
  case Nil
  then show ?case by simp
next
  case (Cons k keep)
  then show ?case by (cases xs) simp_all
qed

lemma select_mask_positions:
  "select_mask keep xs = map ((!) xs) (select_mask keep [0..<length xs])"
proof -
  have "select_mask keep (map ((!) xs) [0..<length xs])
          = map ((!) xs) (select_mask keep [0..<length xs])"
    by (rule select_mask_map)
  then show ?thesis by (simp add: map_nth)
qed

lemma tolist_series_select:
  "tolist (series_select keep s) = select_mask keep (tolist s)"
  by (cases s) (simp_all add: select_mask_map)

lemma tolist_series_take:
  "list_all (\<lambda>p. p < series_len s) ps \<Longrightarrow> tolist (series_take ps s) = map ((!) (tolist s)) ps"
  by (cases s) (auto simp: list_all_iff)

lemma getitem_head:
  "getitem df key = Inr s \<Longrightarrow> getitem (head n df) key = Inr (series_head n s)"
  by (simp add: getitem_Inr_iff head_def map_of_map)

lemma tolist_series_head: "tolist (series_head n s) = take n (tolist s)"
  by (cases s) (simp_all add: take_map)

lemma length_tolist: "length (tolist s) = series_len s"
  by (cases s) simp_all

lemma mean_skipna_present:
  "mean_skipna (map Some xs) = (if xs = [] then None else Some (sum_list xs / real (length xs)))"
proof -
  have "concat (map (\<lambda>x. case x of None \<Rightarrow> [] | Some y \<Rightarrow> [y]) (map Some xs)) = xs"
    by (induction xs) simp_all
  then show ?thesis by (simp add: mean_skipna_def)
qed

section \<open>Normalization and the mask\<close>

lemma length_to_numeric: "length (to_numeric parse s) = series_len s"
  by (cases s) simp_all

lemma to_numeric_strip_comma:
  "to_numeric parse (Object (map (map_option (filter (\<lambda>ch. ch \<noteq> CHR '',''))) xs))
     = map (normalize_volume parse) xs"
  by (simp add: normalize_volume_def)

lemma to_numeric_strip_dollar:
  "to_numeric parse (Object (map (map_option (filter (\<lambda>ch. ch \<noteq> CHR ''$''))) xs))
     = map (normalize_cpc parse) xs"
  by (simp add: normalize_cpc_def)

lemma length_threshold_mask:
  "length comp_n = length vol_n \<Longrightarrow> length bid_n = length vol_n \<Longrightarrow>
     length (threshold_mask self vol_n comp_n bid_n) = length vol_n"
  by (simp add: threshold_mask_def and_mask_def ge_scalar_def le_scalar_def)

lemma threshold_mask_nth:
  assumes "i < length vol_n" "length comp_n = length vol_n" "length bid_n = length vol_n"
  shows "threshold_mask self vol_n comp_n bid_n ! i
           = retained self (vol_n ! i) (comp_n ! i) (bid_n ! i)"
  using assms
  by (cases "vol_n ! i"; cases "comp_n ! i"; cases "bid_n ! i")
     (simp_all add: threshold_mask_def and_mask_def ge_scalar_def le_scalar_def)

text \<open>The rows kept by the mask all pass, so each of them gets a score.\<close>

lemma kept_rows_retained:
  assumes "length comp_n = length vol_n" "length bid_n = length vol_n"
    and "t \<in> set (select_mask (threshold_mask self vol_n comp_n bid_n)
                   (zip vol_n (zip comp_n bid_n)))"
  shows "retained self (fst t) (fst (snd t)) (snd (snd t))"
  using assms by (auto simp: set_select_mask threshold_mask_nth)

lemma retained_score_row:
  "retained self v c b \<Longrightarrow>
     \<exists>v' c' b'. v = Some v' \<and> c = Some c' \<and> b = Some b' \<and>
       score_row (v, c, b) = Some (calculate_opportunity_score v' c' b')"
  by (cases v; cases c; cases b) simp_all

section \<open>The parameter instances\<close>

lemma sorted_desc_rev_sort_key:
  "sorted_wrt (\<lambda>a b. b \<le> a) (map f (rev (sort_key f xs)))"
proof -
  have "sorted (map f (sort_key f xs))" by (rule sorted_sort_key)
  then have "sorted_wrt (\<lambda>a b. b \<le> a) (rev (map f (sort_key f xs)))"
    by (simp add: sorted_wrt_rev)
  then show ?thesis by (simp add: rev_map)
qed

lemma stable_argsort_contract: "argsort_desc_contract stable_argsort"
  unfolding argsort_desc_contract_def stable_argsort_def
  by (simp add: sorted_desc_rev_sort_key)

section \<open>analyze_keywords\<close>

lemma analyze_keywords_text:
  assumes "getitem df ''Competition'' = Inr comp_raw"
    and "getitem df ''Avg. monthly searches'' = Inr (Object vs)"
    and "getitem df ''Top of page bid (low range)'' = Inr (Object bs)"
  shows "analyze_keywords parse argsort self df =
     (let comp_n = to_numeric parse comp_raw;
          vol_n = map (normalize_volume parse) vs;
          bid_n = map (normalize_cpc parse) bs;
          df3 = setitem (setitem (setitem df ''Competition'' (Float64 comp_n))
                           ''Avg. monthly searches'' (Float64 vol_n))
                  ''Top of page bid (low range)'' (Float64 bid_n);
          keep = threshold_mask self vol_n comp_n bid_n;
          scores = map score_row (zip (select_mask keep vol_n)
                     (zip (select_mask keep comp_n) (select_mask keep bid_n)))
      in (df3, Inr (take_rows (argsort scores)
                      (setitem (boolean_index df3 keep) ''Opportunity Score'' (Float64 scores)))))"
  using assms
  by (simp add: analyze_keywords_def getitem_setitem Let_def threshold_mask_def
        to_numeric_strip_comma to_numeric_strip_dollar del: to_numeric.simps)

text \<open>\<open>analyze_keywords\<close> returns a table on exactly these tables; on every other it raises.\<close>

lemma analyze_keywords_returns_iff:
  "(\<exists>opp. snd (analyze_keywords parse argsort self df) = Inr opp) \<longleftrightarrow>
     (\<exists>comp_raw vs bs.
        getitem df ''Competition'' = Inr comp_raw \<and>
        getitem df ''Avg. monthly searches'' = Inr (Object vs) \<and>
        getitem df ''Top of page bid (low range)'' = Inr (Object bs))"
proof
  assume "\<exists>opp. snd (analyze_keywords parse argsort self df) = Inr opp"
  then obtain opp where r: "snd (analyze_keywords parse argsort self df) = Inr opp" ..
  from r obtain comp_raw where c: "getitem df ''Competition'' = Inr comp_raw"
    by (cases "getitem df ''Competition''") (simp_all add: analyze_keywords_def)
  from r c obtain vol where v: "getitem df ''Avg. monthly searches'' = Inr vol"
    by (cases "getitem df ''Avg. monthly searches''")
       (simp_all add: analyze_keywords_def getitem_setitem Let_def)
  from r c v obtain vs where vs: "vol = Object vs"
    by (cases vol) (simp_all add: analyze_keywords_def getitem_setitem Let_def)
  from r c v vs obtain bid where b: "getitem df ''Top of page bid (low range)'' = Inr bid"
    by (cases "getitem df ''Top of page bid (low range)''")
       (simp_all add: analyze_keywords_def getitem_setitem Let_def)
  from r c v vs b obtain bs where "bid = Object bs"
    by (cases bid) (simp_all add: analyze_keywords_def getitem_setitem Let_def)
  with c v vs b show "\<exists>comp_raw vs bs.
        getitem df ''Competition'' = Inr comp_raw \<and>
        getitem df ''Avg. monthly searches'' = Inr (Object vs) \<and>
        getitem df ''Top of page bid (low range)'' = Inr (Object bs)"
    by blast
next
  assume "\<exists>comp_raw vs bs.
        getitem df ''Competition'' = Inr comp_raw \<and>
        getitem df ''Avg. monthly searches'' = Inr (Object vs) \<and>
        getitem df ''Top of page bid (low range)'' = Inr (Object bs)"
  then obtain comp_raw vs bs where
    "getitem df ''Competition'' = Inr comp_raw"
    "getitem df ''Avg. monthly searches'' = Inr (Object vs)"
    "getitem df ''Top of page bid (low range)'' = Inr (Object bs)"
    by blast
  then show "\<exists>opp. snd (analyze_keywords parse argsort self df) = Inr opp"
    by (simp add: analyze_keywords_text Let_def)
qed

text \<open>A numeric search-volume column makes line 70 raise, after line 69 has run.\<close>

lemma analyze_keywords_numeric_volume:
  assumes "getitem df ''Competition'' = Inr comp_raw"
    and "getitem df ''Avg. monthly searches'' = Inr (Float64 xs)"
  shows "analyze_keywords parse argsort self df
           = (setitem df ''Competition'' (Float64 (to_numeric parse comp_raw)),
              Inl (PyExc AttributeError ''Can only use .str accessor with string values!''))"
  using assms by (simp add: analyze_keywords_def getitem_setitem Let_def)

lemma analyze_keywords_output:
  fixes parse :: "string \<Rightarrow> real option" and self :: analyzer
  assumes wf: "wf_dataframe df"
    and c: "getitem df ''Competition'' = Inr comp_raw"
    and v: "getitem df ''Avg. monthly searches'' = Inr (Object vs)"
    and b: "getitem df ''Top of page bid (low range)'' = Inr (Object bs)"
  defines "comp_n \<equiv> to_numeric parse comp_raw"
    and "vol_n \<equiv> map (normalize_volume parse) vs"
    and "bid_n \<equiv> map (normalize_cpc parse) bs"
  defines "keep \<equiv> threshold_mask self vol_n comp_n bid_n"
  defines "scores \<equiv> map score_row (select_mask keep (zip vol_n (zip comp_n bid_n)))"
  shows "\<exists>df' opp. analyze_keywords parse argsort self df = (df', Inr opp) \<and>
           index opp = map ((!) (select_mask keep (index df))) (argsort scores) \<and>
           getitem opp ''Opportunity Score'' = Inr (Float64 (map ((!) scores) (argsort scores))) \<and>
           getitem opp ''Avg. monthly searches''
             = Inr (Float64 (map ((!) (select_mask keep vol_n)) (argsort scores))) \<and>
           getitem opp ''Competition''
             = Inr (Float64 (map ((!) (select_mask keep comp_n)) (argsort scores))) \<and>
           getitem opp ''Top of page bid (low range)''
             = Inr (Float64 (map ((!) (select_mask keep bid_n)) (argsort scores)))"
proof -
  have len: "length vol_n = length (index df)" "length comp_n = length (index df)"
    "length bid_n = length (index df)"
    using wf_series_len [OF wf c] wf_series_len [OF wf v] wf_series_len [OF wf b]
    by (simp_all add: vol_n_def comp_n_def bid_n_def length_to_numeric)
  have z: "zip (select_mask keep vol_n) (zip (select_mask keep comp_n) (select_mask keep bid_n))
             = select_mask keep (zip vol_n (zip comp_n bid_n))"
    using len by (simp add: select_mask_zip)
  note z' = z [unfolded keep_def vol_n_def comp_n_def bid_n_def]
  show ?thesis
    unfolding analyze_keywords_text [OF c v b] Let_def
    by (simp add: z' index_take_rows index_setitem index_boolean_index
          getitem_take_rows getitem_setitem getitem_boolean_index
          comp_n_def vol_n_def bid_n_def keep_def scores_def)
qed

lemma mset_index_output:
  fixes parse :: "string \<Rightarrow> real option" and self :: analyzer
  assumes ctr: "argsort_desc_contract argsort"
    and wf: "wf_dataframe df"
    and c: "getitem df ''Competition'' = Inr comp_raw"
    and v: "getitem df ''Avg. monthly searches'' = Inr (Object vs)"
    and b: "getitem df ''Top of page bid (low range)'' = Inr (Object bs)"
  defines "keep \<equiv> threshold_mask self (map (normalize_volume parse) vs)
                     (to_numeric parse comp_raw) (map (normalize_cpc parse) bs)"
  shows "\<exists>df' opp. analyze_keywords parse argsort self df = (df', Inr opp) \<and>
           mset (index opp) = mset (select_mask keep (index df))"
proof -
  let ?vol = "map (normalize_volume parse) vs"
  let ?comp = "to_numeric parse comp_raw"
  let ?bid = "map (normalize_cpc parse) bs"
  let ?scores = "map score_row (select_mask keep (zip ?vol (zip ?comp ?bid)))"
  have len: "length ?vol = length (index df)" "length ?comp = length (index df)"
    "length ?bid = length (index df)"
    using wf_series_len [OF wf c] wf_series_len [OF wf v] wf_series_len [OF wf b]
    by (simp_all add: length_to_numeric)
  have lk: "length keep = length (index df)"
    unfolding keep_def using len by (simp add: length_threshold_mask)
  have "length ?scores = length (select_mask keep (index df))"
    using len lk by (simp add: length_select_mask)
  moreover have "mset (argsort ?scores) = mset [0..<length ?scores]"
    using ctr by (simp add: argsort_desc_contract_def)
  ultimately have
    "mset (map ((!) (select_mask keep (index df))) (argsort ?scores))
       = mset (select_mask keep (index df))"
    by (intro mset_take_positions) simp
  moreover obtain df' opp where
    "analyze_keywords parse argsort self df = (df', Inr opp)"
    "index opp = map ((!) (select_mask keep (index df))) (argsort ?scores)"
    using analyze_keywords_output [OF wf c v b, where parse = parse and self = self and argsort = argsort]
    unfolding keep_def by blast
  ultimately show ?thesis by auto
qed

lemma analyze_keywords_row_scores:
  assumes "argsort_desc_contract argsort"
    and "wf_dataframe df"
    and "getitem df ''Competition'' = Inr comp_raw"
    and "getitem df ''Avg. monthly searches'' = Inr (Object vs)"
    and "getitem df ''Top of page bid (low range)'' = Inr (Object bs)"
  shows "\<exists>df' opp V C B S. analyze_keywords parse argsort self df = (df', Inr opp) \<and>
           getitem opp ''Avg. monthly searches'' = Inr (Float64 V) \<and>
           getitem opp ''Competition'' = Inr (Float64 C) \<and>
           getitem opp ''Top of page bid (low range)'' = Inr (Float64 B) \<and>
           getitem opp ''Opportunity Score'' = Inr (Float64 S) \<and>
           length V = length (index opp) \<and> length C = length (index opp) \<and>
           length B = length (index opp) \<and> length S = length (index opp) \<and>
           (\<forall>k. k < length (index opp) \<longrightarrow>
              (\<exists>v c b. V ! k = Some v \<and> C ! k = Some c \<and> B ! k = Some b \<and>
                 S ! k = Some (calculate_opportunity_score v c b)))"
proof -
  let ?vol = "map (normalize_volume parse) vs"
  let ?comp = "to_numeric parse comp_raw"
  let ?bid = "map (normalize_cpc parse) bs"
  let ?keep = "threshold_mask self ?vol ?comp ?bid"
  let ?rows = "select_mask ?keep (zip ?vol (zip ?comp ?bid))"
  let ?scores = "map score_row ?rows"
  let ?perm = "argsort ?scores"
  have len: "length ?vol = length (index df)" "length ?comp = length (index df)"
    "length ?bid = length (index df)"
    using wf_series_len [OF assms(2) assms(3)] wf_series_len [OF assms(2) assms(4)]
      wf_series_len [OF assms(2) assms(5)]
    by (simp_all add: length_to_numeric)
  have z: "?rows = zip (select_mask ?keep ?vol)
                     (zip (select_mask ?keep ?comp) (select_mask ?keep ?bid))"
    using len by (simp add: select_mask_zip)
  have lk: "length ?keep = length (index df)"
    using len by (simp add: length_threshold_mask)
  have lsel: "length (select_mask ?keep ?vol) = length ?rows"
    "length (select_mask ?keep ?comp) = length ?rows"
    "length (select_mask ?keep ?bid) = length ?rows"
    using len lk by (simp_all add: length_select_mask)
  have perm: "set ?perm = {0..<length ?rows}"
  proof -
    have "mset ?perm = mset [0..<length ?scores]"
      using assms(1) by (simp add: argsort_desc_contract_def)
    then have "set ?perm = set [0..<length ?scores]" by (rule mset_eq_setD)
    then show ?thesis by simp
  qed
  obtain df' opp where run: "analyze_keywords parse argsort self df = (df', Inr opp)"
    and io: "index opp = map ((!) (select_mask ?keep (index df))) ?perm"
    and gs: "getitem opp ''Opportunity Score'' = Inr (Float64 (map ((!) ?scores) ?perm))"
    and gv: "getitem opp ''Avg. monthly searches''
               = Inr (Float64 (map ((!) (select_mask ?keep ?vol)) ?perm))"
    and gc: "getitem opp ''Competition''
               = Inr (Float64 (map ((!) (select_mask ?keep ?comp)) ?perm))"
    and gb: "getitem opp ''Top of page bid (low range)''
               = Inr (Float64 (map ((!) (select_mask ?keep ?bid)) ?perm))"
    using analyze_keywords_output [OF assms(2-5), where parse = parse and self = self
        and argsort = argsort] by blast
  have "\<exists>v c b. map ((!) (select_mask ?keep ?vol)) ?perm ! k = Some v \<and>
          map ((!) (select_mask ?keep ?comp)) ?perm ! k = Some c \<and>
          map ((!) (select_mask ?keep ?bid)) ?perm ! k = Some b \<and>
          map ((!) ?scores) ?perm ! k = Some (calculate_opportunity_score v c b)"
    if "k < length (index opp)" for k
  proof -
    have k: "k < length ?perm" using that io by simp
    then have "?perm ! k \<in> set ?perm" by simp
    then have p: "?perm ! k < length ?rows" using perm by simp
    let ?p = "?perm ! k"
    have row: "?rows ! ?p = (select_mask ?keep ?vol ! ?p, select_mask ?keep ?comp ! ?p,
                 select_mask ?keep ?bid ! ?p)"
      using p lsel by (subst z) simp
    have "?rows ! ?p \<in> set ?rows" using p by simp
    then have "retained self (fst (?rows ! ?p)) (fst (snd (?rows ! ?p))) (snd (snd (?rows ! ?p)))"
      using len by (intro kept_rows_retained) simp_all
    then have "retained self (select_mask ?keep ?vol ! ?p) (select_mask ?keep ?comp ! ?p)
                 (select_mask ?keep ?bid ! ?p)"
      by (simp add: row)
    from retained_score_row [OF this] show ?thesis
      using k p by (simp add: row)
  qed
  with run gs gv gc gb io show ?thesis by fastforce
qed

text \<open>The table returned is consistent, and keeps the Keyword column of the input.\<close>

lemma analyze_keywords_output_wf:
  assumes ctr: "argsort_desc_contract argsort"
    and wf: "wf_dataframe df"
    and c: "getitem df ''Competition'' = Inr comp_raw"
    and v: "getitem df ''Avg. monthly searches'' = Inr (Object vs)"
    and b: "getitem df ''Top of page bid (low range)'' = Inr (Object bs)"
  shows "\<exists>df' opp. analyze_keywords parse argsort self df = (df', Inr opp) \<and>
           wf_dataframe opp \<and>
           (\<forall>kw. getitem df ''Keyword'' = Inr kw \<longrightarrow> (\<exists>kw'. getitem opp ''Keyword'' = Inr kw'))"
proof -
  let ?vol = "map (normalize_volume parse) vs"
  let ?comp = "to_numeric parse comp_raw"
  let ?bid = "map (normalize_cpc parse) bs"
  let ?keep = "threshold_mask self ?vol ?comp ?bid"
  let ?scores = "map score_row (zip (select_mask ?keep ?vol)
                   (zip (select_mask ?keep ?comp) (select_mask ?keep ?bid)))"
  let ?df3 = "setitem (setitem (setitem df ''Competition'' (Float64 ?comp))
                ''Avg. monthly searches'' (Float64 ?vol))
                ''Top of page bid (low range)'' (Float64 ?bid)"
  let ?scored = "setitem (boolean_index ?df3 ?keep) ''Opportunity Score'' (Float64 ?scores)"
  have len: "length ?vol = length (index df)" "length ?comp = length (index df)"
    "length ?bid = length (index df)"
    using wf_series_len [OF wf c] wf_series_len [OF wf v] wf_series_len [OF wf b]
    by (simp_all add: length_to_numeric)
  have lk: "length ?keep = length (index df)"
    using len by (simp add: length_threshold_mask)
  have wf3: "wf_dataframe ?df3"
    using wf len by (intro wf_setitem) (simp_all add: index_setitem)
  have lsc: "length ?scores = length (select_mask ?keep (index df))"
    using len lk by (simp add: length_select_mask)
  have wfb: "wf_dataframe (boolean_index ?df3 ?keep)"
    using wf3 lk by (intro wf_boolean_index) (simp_all add: index_setitem)
  have wfs: "wf_dataframe ?scored"
    using wfb lsc by (intro wf_setitem) (simp_all add: index_setitem index_boolean_index)
  have "mset (argsort ?scores) = mset [0..<length (index ?scored)]"
    using ctr lsc by (simp add: argsort_desc_contract_def index_setitem index_boolean_index)
  with wfs have "wf_dataframe (take_rows (argsort ?scores) ?scored)"
    by (rule wf_take_rows)
  moreover have "\<exists>kw'. getitem (take_rows (argsort ?scores) ?scored) ''Keyword'' = Inr kw'"
    if "getitem df ''Keyword'' = Inr kw" for kw
    using that
    by (simp add: getitem_take_rows getitem_setitem getitem_boolean_index)
  ultimately show ?thesis
    unfolding analyze_keywords_text [OF c v b] Let_def by blast
qed

text \<open>
  Every row of the table returned is a row of the input that passes the thresholds: it
  has that row's label and, in every column but the score, that row's cell of the
  normalized input.
\<close>

lemma analyze_keywords_output_rows:
  assumes ctr: "argsort_desc_contract argsort"
    and wf: "wf_dataframe df"
    and c: "getitem df ''Competition'' = Inr comp_raw"
    and v: "getitem df ''Avg. monthly searches'' = Inr (Object vs)"
    and b: "getitem df ''Top of page bid (low range)'' = Inr (Object bs)"
  shows "\<exists>df' opp. analyze_keywords parse argsort self df = (df', Inr opp) \<and>
           (\<forall>k. k < length (index opp) \<longrightarrow>
              (\<exists>i. i < length (index df) \<and>
                 retained self (normalize_volume parse (vs ! i))
                   (to_numeric parse comp_raw ! i) (normalize_cpc parse (bs ! i)) \<and>
                 index opp ! k = index df ! i \<and>
                 (\<forall>key s. key \<noteq> ''Opportunity Score'' \<and> getitem df' key = Inr s \<longrightarrow>
                    (\<exists>s'. getitem opp key = Inr s' \<and> tolist s' ! k = tolist s ! i))))"
proof -
  let ?vol = "map (normalize_volume parse) vs"
  let ?comp = "to_numeric parse comp_raw"
  let ?bid = "map (normalize_cpc parse) bs"
  let ?keep = "threshold_mask self ?vol ?comp ?bid"
  let ?scores = "map score_row (zip (select_mask ?keep ?vol)
                   (zip (select_mask ?keep ?comp) (select_mask ?keep ?bid)))"
  let ?df3 = "setitem (setitem (setitem df ''Competition'' (Float64 ?comp))
                ''Avg. monthly searches'' (Float64 ?vol))
                ''Top of page bid (low range)'' (Float64 ?bid)"
  let ?scored = "setitem (boolean_index ?df3 ?keep) ''Opportunity Score'' (Float64 ?scores)"
  let ?perm = "argsort ?scores"
  let ?opp = "take_rows ?perm ?scored"
  let ?n = "length (index df)"
  let ?pos = "select_mask ?keep [0..<?n]"
  have len: "length ?vol = ?n" "length ?comp = ?n" "length ?bid = ?n" "length vs = ?n"
    "length bs = ?n"
    using wf_series_len [OF wf c] wf_series_len [OF wf v] wf_series_len [OF wf b]
    by (simp_all add: length_to_numeric)
  have lk: "length ?keep = ?n"
    using len by (simp add: length_threshold_mask)
  have wf3: "wf_dataframe ?df3"
    using wf len by (intro wf_setitem) (simp_all add: index_setitem)
  have m: "length ?scores = length ?pos" "length (select_mask ?keep (index df)) = length ?pos"
    using len lk by (simp_all add: length_select_mask)
  have perm: "set ?perm = {0..<length ?pos}"
  proof -
    have "mset ?perm = mset [0..<length ?scores]"
      using ctr by (simp add: argsort_desc_contract_def)
    then have "set ?perm = set [0..<length ?scores]" by (rule mset_eq_setD)
    then show ?thesis using m by simp
  qed
  have run: "analyze_keywords parse argsort self df = (?df3, Inr ?opp)"
    unfolding analyze_keywords_text [OF c v b] Let_def by simp
  have "\<exists>i. i < ?n \<and>
          retained self (normalize_volume parse (vs ! i)) (?comp ! i)
            (normalize_cpc parse (bs ! i)) \<and>
          index ?opp ! k = index df ! i \<and>
          (\<forall>key s. key \<noteq> ''Opportunity Score'' \<and> getitem ?df3 key = Inr s \<longrightarrow>
             (\<exists>s'. getitem ?opp key = Inr s' \<and> tolist s' ! k = tolist s ! i))"
    if k: "k < length (index ?opp)" for k
  proof -
    have kp: "k < length ?perm" using k by (simp add: index_take_rows)
    then have "?perm ! k \<in> set ?perm" by simp
    then have p: "?perm ! k < length ?pos" using perm by simp
    let ?i = "?pos ! (?perm ! k)"
    have "?i \<in> set ?pos" using p by simp
    then have i: "?i < ?n" "?keep ! ?i"
      by (auto simp: set_select_mask)
    have r: "retained self (normalize_volume parse (vs ! ?i)) (?comp ! ?i)
               (normalize_cpc parse (bs ! ?i))"
      using i len threshold_mask_nth [of ?i ?vol ?comp ?bid self] by simp
    have sel: "select_mask ?keep xs ! (?perm ! k) = xs ! ?i" if "length xs = ?n" for xs :: "'b list"
      using that p by (subst select_mask_positions) simp
    have ix: "index ?opp ! k = index df ! ?i"
      using kp sel [of "index df"]
      by (simp add: index_take_rows index_setitem index_boolean_index)
    have cols: "\<exists>s'. getitem ?opp key = Inr s' \<and> tolist s' ! k = tolist s ! ?i"
      if key: "key \<noteq> ''Opportunity Score''" and g: "getitem ?df3 key = Inr s" for key s
    proof -
      have ls: "length (tolist s) = ?n"
        using wf_series_len [OF wf3 g] by (simp add: length_tolist index_setitem)
      have lsel: "series_len (series_select ?keep s) = length ?pos"
        using ls lk by (simp add: series_len_select length_tolist length_select_mask)
      have all: "list_all (\<lambda>p. p < series_len (series_select ?keep s)) ?perm"
        unfolding lsel list_all_iff using perm by auto
      have "getitem ?opp key = Inr (series_take ?perm (series_select ?keep s))"
        using key g by (simp add: getitem_take_rows getitem_setitem getitem_boolean_index)
      moreover have "tolist (series_take ?perm (series_select ?keep s)) ! k = tolist s ! ?i"
        using kp sel [OF ls] by (simp add: tolist_series_take [OF all] tolist_series_select)
      ultimately show ?thesis by blast
    qed
    from i(1) r ix cols show ?thesis by blast
  qed
  with run show ?thesis by blast
qed

subsection \<open>Concrete runs\<close>

lemmas eval_defs =
  analyze_keywords_def getitem_def setitem_def default_analyzer_def init_def
  parse_decimal_def digit_value_def and_mask_def ge_scalar_def le_scalar_def
  boolean_index_def take_rows_def Let_def

lemma analyze_shoes:
  "analyze_keywords parse_decimal stable_argsort default_analyzer shoes_table
     = (shoes_normalized, Inr shoes_opportunities)"
  by (simp add: eval_defs shoes_table_def shoes_searches_def shoes_competition_def
        shoes_bids_def shoes_normalized_def shoes_opportunities_def stable_argsort_def
        score_1000 score_10000)


lemma analyze_laces:
  "snd (analyze_keywords parse_decimal stable_argsort default_analyzer laces_table)
     = Inr \<lparr>index = [2, 1],
            columns =
              [(''Keyword'', Object [Some ''trail shoes'', Some ''running shoes'']),
               (''Avg. monthly searches'', Float64 [Some 10000, Some 1000]),
               (''Competition'', Float64 [Some (1 / 10), Some (1 / 10)]),
               (''Top of page bid (low range)'', Float64 [Some (5 / 2), Some (5 / 2)]),
               (''Opportunity Score'', Float64 [Some 73, Some 65])]\<rparr>"
  by (simp add: eval_defs laces_table_def stable_argsort_def score_1000 score_10000)

lemma wf_shoes_table: "wf_dataframe shoes_table"
  by (simp add: wf_dataframe_def shoes_table_def shoes_searches_def shoes_competition_def
        shoes_bids_def)

lemma shoes_table_columns:
  "getitem shoes_table ''Competition'' = Inr (Object shoes_competition)"
  "getitem shoes_table ''Avg. monthly searches'' = Inr (Object shoes_searches)"
  "getitem shoes_table ''Top of page bid (low range)'' = Inr (Object shoes_bids)"
  by (simp_all add: getitem_def shoes_table_def)

lemma normalization_examples:
  "normalize_volume parse_decimal (Some ''1,200'') = Some 1200"
  "normalize_cpc parse_decimal (Some ''$2.5'') = Some (5 / 2)"
  "to_numeric parse_decimal (Object [Some ''0.1'', Some ''N/A'', None]) = [Some (1 / 10), None, None]"
  by (simp_all add: normalize_volume_def normalize_cpc_def parse_decimal_def digit_value_def)

section \<open>The claims about analyze_keywords\<close>

text \<open>
  The theorems below are about tables as \<open>read_csv\<close> returns them for an export with
  grouped volumes and bids with a currency sign: consistent (\<open>wf_dataframe\<close>), with a
  Competition column of either kind and text columns for the search volume and the bid.
  These are the tables on which \<open>analyze_keywords\<close> returns; \<open>argsort\<close> is any sort
  that meets \<open>argsort_desc_contract\<close>, and \<open>parse\<close> any converter.
\<close>

text \<open>
  On these tables a row is in the scored output if and only if its three normalized
  fields are present and volume >= min_search_volume, competition <= max_competition
  and cpc >= min_cpc; so a row with a missing or unparseable field is never in the
  output.
\<close>

theorem analyze_keywords_keeps_exactly_passing_rows:
  assumes "argsort_desc_contract argsort"
    and "wf_dataframe df"
    and "getitem df ''Competition'' = Inr comp_raw"
    and "getitem df ''Avg. monthly searches'' = Inr (Object vs)"
    and "getitem df ''Top of page bid (low range)'' = Inr (Object bs)"
  shows "\<exists>df' opp. analyze_keywords parse argsort self df = (df', Inr opp) \<and>
           (\<forall>i. i < length (index df) \<longrightarrow>
              (index df ! i \<in> set (index opp) \<longleftrightarrow>
                 retained self (normalize_volume parse (vs ! i))
                   (to_numeric parse comp_raw ! i) (normalize_cpc parse (bs ! i))))"
proof -
  let ?vol = "map (normalize_volume parse) vs"
  let ?comp = "to_numeric parse comp_raw"
  let ?bid = "map (normalize_cpc parse) bs"
  let ?keep = "threshold_mask self ?vol ?comp ?bid"
  have len: "length ?vol = length (index df)" "length ?comp = length (index df)"
    "length ?bid = length (index df)" "length vs = length (index df)"
    "length bs = length (index df)"
    using wf_series_len [OF assms(2) assms(3)] wf_series_len [OF assms(2) assms(4)]
      wf_series_len [OF assms(2) assms(5)]
    by (simp_all add: length_to_numeric)
  have lk: "length ?keep = length (index df)"
    using len by (simp add: length_threshold_mask)
  have d: "distinct (index df)"
    using assms(2) by (simp add: wf_dataframe_def)
  obtain df' opp where run: "analyze_keywords parse argsort self df = (df', Inr opp)"
    and m: "mset (index opp) = mset (select_mask ?keep (index df))"
    using mset_index_output [OF assms, where parse = parse and self = self] by blast
  have s: "set (index opp) = set (select_mask ?keep (index df))"
    using m by (rule mset_eq_setD)
  have "index df ! i \<in> set (index opp) \<longleftrightarrow>
          retained self (normalize_volume parse (vs ! i)) (?comp ! i)
            (normalize_cpc parse (bs ! i))"
    if "i < length (index df)" for i
  proof -
    have "index df ! i \<in> set (index opp) \<longleftrightarrow> ?keep ! i"
      unfolding s using d that lk by (intro nth_in_select_mask) simp_all
    also have "\<dots> \<longleftrightarrow> retained self (?vol ! i) (?comp ! i) (?bid ! i)"
      using that len by (intro threshold_mask_nth) simp_all
    finally show ?thesis using that len by simp
  qed
  with run show ?thesis by blast
qed

theorem analyze_keywords_keeps_exactly_passing_rows_witness:
  "argsort_desc_contract stable_argsort \<and>
   wf_dataframe shoes_table \<and>
   getitem shoes_table ''Competition'' = Inr (Object shoes_competition) \<and>
   getitem shoes_table ''Avg. monthly searches'' = Inr (Object shoes_searches) \<and>
   getitem shoes_table ''Top of page bid (low range)'' = Inr (Object shoes_bids) \<and>
   (\<exists>df' opp. analyze_keywords parse_decimal stable_argsort default_analyzer shoes_table
                = (df', Inr opp) \<and>
      0 \<in> set (index opp) \<and> 1 \<in> set (index opp) \<and>
      2 \<notin> set (index opp) \<and> 3 \<notin> set (index opp))"
proof -
  obtain df' opp where
    run: "analyze_keywords parse_decimal stable_argsort default_analyzer shoes_table
            = (df', Inr opp)"
    and rows: "\<And>i. i < length (index shoes_table) \<Longrightarrow>
      index shoes_table ! i \<in> set (index opp) \<longleftrightarrow>
        retained default_analyzer (normalize_volume parse_decimal (shoes_searches ! i))
          (to_numeric parse_decimal (Object shoes_competition) ! i)
          (normalize_cpc parse_decimal (shoes_bids ! i))"
    using analyze_keywords_keeps_exactly_passing_rows
      [OF stable_argsort_contract wf_shoes_table shoes_table_columns,
       where parse = parse_decimal and self = default_analyzer]
    by blast
  note cells = shoes_table_def shoes_searches_def shoes_competition_def shoes_bids_def
    normalize_volume_def normalize_cpc_def parse_decimal_def digit_value_def
    default_analyzer_def init_def
  have "0 \<in> set (index opp)" using rows [of 0] by (simp add: cells)
  moreover have "1 \<in> set (index opp)" using rows [of 1] by (simp add: cells)
  moreover have "2 \<notin> set (index opp)" using rows [of 2] by (simp add: cells)
  moreover have "3 \<notin> set (index opp)" using rows [of 3] by (simp add: cells)
  ultimately show ?thesis
    using run stable_argsort_contract wf_shoes_table shoes_table_columns by blast
qed

text \<open>
  For every sort that returns a descending permutation, the scored output is sorted by
  Opportunity Score in descending order and has the labels of the rows that pass the
  mask, each once.
\<close>

theorem analyze_keywords_sorted_descending:
  assumes "argsort_desc_contract argsort"
    and "wf_dataframe df"
    and "getitem df ''Competition'' = Inr comp_raw"
    and "getitem df ''Avg. monthly searches'' = Inr (Object vs)"
    and "getitem df ''Top of page bid (low range)'' = Inr (Object bs)"
  shows "\<exists>df' opp ss. analyze_keywords parse argsort self df = (df', Inr opp) \<and>
           getitem opp ''Opportunity Score'' = Inr (Float64 ss) \<and>
           sorted_wrt (\<lambda>a b. b \<le> a) ss \<and>
           mset (index opp)
             = mset (select_mask
                       (threshold_mask self (map (normalize_volume parse) vs)
                          (to_numeric parse comp_raw) (map (normalize_cpc parse) bs))
                       (index df))"
proof -
  let ?vol = "map (normalize_volume parse) vs"
  let ?comp = "to_numeric parse comp_raw"
  let ?bid = "map (normalize_cpc parse) bs"
  let ?keep = "threshold_mask self ?vol ?comp ?bid"
  let ?scores = "map score_row (select_mask ?keep (zip ?vol (zip ?comp ?bid)))"
  obtain df' opp where run: "analyze_keywords parse argsort self df = (df', Inr opp)"
    and sc: "getitem opp ''Opportunity Score''
               = Inr (Float64 (map ((!) ?scores) (argsort ?scores)))"
    using analyze_keywords_output [OF assms(2-5), where parse = parse and self = self and argsort = argsort] by blast
  obtain df'' opp' where run': "analyze_keywords parse argsort self df = (df'', Inr opp')"
    and m: "mset (index opp') = mset (select_mask ?keep (index df))"
    using mset_index_output [OF assms, where parse = parse and self = self] by blast
  have "sorted_wrt (\<lambda>a b. b \<le> a) (map ((!) ?scores) (argsort ?scores))"
    using assms(1) by (simp add: argsort_desc_contract_def)
  with run run' sc m show ?thesis by auto
qed

theorem analyze_keywords_sorted_descending_witness:
  "argsort_desc_contract stable_argsort \<and>
   wf_dataframe shoes_table \<and>
   getitem shoes_table ''Competition'' = Inr (Object shoes_competition) \<and>
   getitem shoes_table ''Avg. monthly searches'' = Inr (Object shoes_searches) \<and>
   getitem shoes_table ''Top of page bid (low range)'' = Inr (Object shoes_bids) \<and>
   (\<exists>df' opp ss. analyze_keywords parse_decimal stable_argsort default_analyzer shoes_table
                   = (df', Inr opp) \<and>
      getitem opp ''Opportunity Score'' = Inr (Float64 ss) \<and>
      sorted_wrt (\<lambda>a b. b \<le> a) ss \<and>
      mset (index opp)
        = mset (select_mask
                  (threshold_mask default_analyzer
                     (map (normalize_volume parse_decimal) shoes_searches)
                     (to_numeric parse_decimal (Object shoes_competition))
                     (map (normalize_cpc parse_decimal) shoes_bids))
                  (index shoes_table)))"
  by (intro conjI stable_argsort_contract wf_shoes_table shoes_table_columns
        analyze_keywords_sorted_descending
          [OF stable_argsort_contract wf_shoes_table shoes_table_columns])




text \<open>
  C2, at an input where the code departs from it: this table passes the load step, its
  search volumes were read as numbers, and its only row has all three fields present
  and passes every threshold. The row is in no scored output, because line 70 raises
  AttributeError before any row is filtered.
\<close>

theorem analyze_passing_row_numeric_volume_raises:
  "load_keyword_data (Inr numeric_passing_table) = Inr numeric_passing_table \<and>
   retained default_analyzer (Some 1200) (Some (1 / 10))
     (normalize_cpc parse_decimal (Some ''$2.5'')) \<and>
   analyze_keywords parse_decimal stable_argsort default_analyzer numeric_passing_table
     = (numeric_passing_table,
        Inl (PyExc AttributeError ''Can only use .str accessor with string values!''))"
  by (simp add: eval_defs numeric_passing_table_def load_keyword_data_def required_columns_def
        normalize_cpc_def)

text \<open>
  C3, at an input where the code departs from it: the search volumes of this table were
  read as numbers, its Competition cell is \<open>N/A\<close>. The Competition cell becomes
  missing, and then line 70 raises AttributeError instead of dropping the row.
\<close>

theorem analyze_numeric_volume_raises:
  "analyze_keywords parse_decimal stable_argsort default_analyzer numeric_volume_table
     = (\<lparr>index = [0],
         columns =
           [(''Keyword'', Object [Some ''running shoes'']),
            (''Avg. monthly searches'', Float64 [Some 1200]),
            (''Competition'', Float64 [None]),
            (''Top of page bid (low range)'', Object [Some ''$2.5''])]\<rparr>,
        Inl (PyExc AttributeError ''Can only use .str accessor with string values!''))"
  by (simp add: eval_defs numeric_volume_table_def)

text \<open>
  C1 (as amended). For all arguments the code's score is the specification's formula,
  \<open>round(100 * (0.4 * (log10(max(v, 1)) / 5) + 0.4 * (1 - c) + 0.2 * min(b / 10, 1)), 2)\<close>;
  for v = 1200, c = 0.1, b = 2.5 the score is 65.63; and every row of the scored output
  has its three normalized fields present and carries the score of these fields.
\<close>

theorem opportunity_score_is_spec_formula:
  "(\<forall>v c b. calculate_opportunity_score v c b = spec_opportunity_score v c b) \<and>
   spec_opportunity_score 1200 (1 / 10) (5 / 2) = 6563 / 100 \<and>
   (argsort_desc_contract argsort \<and> wf_dataframe df \<and>
    getitem df ''Competition'' = Inr comp_raw \<and>
    getitem df ''Avg. monthly searches'' = Inr (Object vs) \<and>
    getitem df ''Top of page bid (low range)'' = Inr (Object bs) \<longrightarrow>
    (\<exists>df' opp V C B S. analyze_keywords parse argsort self df = (df', Inr opp) \<and>
       getitem opp ''Avg. monthly searches'' = Inr (Float64 V) \<and>
       getitem opp ''Competition'' = Inr (Float64 C) \<and>
       getitem opp ''Top of page bid (low range)'' = Inr (Float64 B) \<and>
       getitem opp ''Opportunity Score'' = Inr (Float64 S) \<and>
       length V = length (index opp) \<and> length C = length (index opp) \<and>
       length B = length (index opp) \<and> length S = length (index opp) \<and>
       (\<forall>k. k < length (index opp) \<longrightarrow>
          (\<exists>v c b. V ! k = Some v \<and> C ! k = Some c \<and> B ! k = Some b \<and>
             S ! k = Some (spec_opportunity_score v c b)))))"
proof (intro conjI allI impI)
  show "calculate_opportunity_score v c b = spec_opportunity_score v c b" for v c b
    by (rule score_eq_spec)
  show "spec_opportunity_score 1200 (1 / 10) (5 / 2) = 6563 / 100"
    using score_1200 by (simp add: score_eq_spec)
next
  assume h: "argsort_desc_contract argsort \<and> wf_dataframe df \<and>
    getitem df ''Competition'' = Inr comp_raw \<and>
    getitem df ''Avg. monthly searches'' = Inr (Object vs) \<and>
    getitem df ''Top of page bid (low range)'' = Inr (Object bs)"
  then have "argsort_desc_contract argsort" "wf_dataframe df"
    "getitem df ''Competition'' = Inr comp_raw"
    "getitem df ''Avg. monthly searches'' = Inr (Object vs)"
    "getitem df ''Top of page bid (low range)'' = Inr (Object bs)"
    by simp_all
  from analyze_keywords_row_scores [OF this, where parse = parse and self = self]
  show "\<exists>df' opp V C B S. analyze_keywords parse argsort self df = (df', Inr opp) \<and>
       getitem opp ''Avg. monthly searches'' = Inr (Float64 V) \<and>
       getitem opp ''Competition'' = Inr (Float64 C) \<and>
       getitem opp ''Top of page bid (low range)'' = Inr (Float64 B) \<and>
       getitem opp ''Opportunity Score'' = Inr (Float64 S) \<and>
       length V = length (index opp) \<and> length C = length (index opp) \<and>
       length B = length (index opp) \<and> length S = length (index opp) \<and>
       (\<forall>k. k < length (index opp) \<longrightarrow>
          (\<exists>v c b. V ! k = Some v \<and> C ! k = Some c \<and> B ! k = Some b \<and>
             S ! k = Some (spec_opportunity_score v c b)))"
    by (simp add: score_eq_spec)
qed

theorem opportunity_score_is_spec_formula_witness:
  "argsort_desc_contract stable_argsort \<and>
   wf_dataframe shoes_table \<and>
   getitem shoes_table ''Competition'' = Inr (Object shoes_competition) \<and>
   getitem shoes_table ''Avg. monthly searches'' = Inr (Object shoes_searches) \<and>
   getitem shoes_table ''Top of page bid (low range)'' = Inr (Object shoes_bids) \<and>
   snd (analyze_keywords parse_decimal stable_argsort default_analyzer shoes_table)
     = Inr shoes_opportunities \<and>
   getitem shoes_opportunities ''Opportunity Score'' = Inr (Float64 [Some 73, Some 65]) \<and>
   spec_opportunity_score 10000 (1 / 10) (5 / 2) = 73 \<and>
   spec_opportunity_score 1000 (1 / 10) (5 / 2) = 65"
proof -
  have h: "argsort_desc_contract stable_argsort \<and> wf_dataframe shoes_table \<and>
    getitem shoes_table ''Competition'' = Inr (Object shoes_competition) \<and>
    getitem shoes_table ''Avg. monthly searches'' = Inr (Object shoes_searches) \<and>
    getitem shoes_table ''Top of page bid (low range)'' = Inr (Object shoes_bids)"
    by (intro conjI stable_argsort_contract wf_shoes_table shoes_table_columns)
  obtain df' opp V C B S where
    run: "analyze_keywords parse_decimal stable_argsort default_analyzer shoes_table
            = (df', Inr opp)"
    and cols: "getitem opp ''Avg. monthly searches'' = Inr (Float64 V)"
      "getitem opp ''Competition'' = Inr (Float64 C)"
      "getitem opp ''Top of page bid (low range)'' = Inr (Float64 B)"
      "getitem opp ''Opportunity Score'' = Inr (Float64 S)"
    and rows: "\<And>k. k < length (index opp) \<Longrightarrow>
      \<exists>v c b. V ! k = Some v \<and> C ! k = Some c \<and> B ! k = Some b \<and>
        S ! k = Some (spec_opportunity_score v c b)"
    using opportunity_score_is_spec_formula
      [where parse = parse_decimal and self = default_analyzer,
       THEN conjunct2, THEN conjunct2, THEN mp, OF h]
    by blast
  have opp: "opp = shoes_opportunities"
    using run by (simp add: analyze_shoes)
  have vals: "V = [Some 10000, Some 1000]" "C = [Some (1 / 10), Some (1 / 10)]"
    "B = [Some (5 / 2), Some (5 / 2)]" "S = [Some 73, Some 65]"
    using cols unfolding opp by (simp_all add: getitem_def shoes_opportunities_def)
  have len: "0 < length (index opp)" "1 < length (index opp)"
    unfolding opp by (simp_all add: shoes_opportunities_def)
  have first: "V ! 0 = Some 10000" "C ! 0 = Some (1 / 10)" "B ! 0 = Some (5 / 2)"
    "S ! 0 = Some 73"
    and second: "V ! 1 = Some 1000" "C ! 1 = Some (1 / 10)" "B ! 1 = Some (5 / 2)"
    "S ! 1 = Some 65"
    unfolding vals by simp_all
  have "spec_opportunity_score 10000 (1 / 10) (5 / 2) = 73"
    using rows [OF len(1)] first by (metis option.inject)
  moreover have "spec_opportunity_score 1000 (1 / 10) (5 / 2) = 65"
    using rows [OF len(2)] second by (metis option.inject)
  moreover have "getitem shoes_opportunities ''Opportunity Score''
                   = Inr (Float64 [Some 73, Some 65])"
    by (simp add: getitem_def shoes_opportunities_def)
  ultimately show ?thesis
    using h by (simp add: analyze_shoes)
qed

section \<open>load_keyword_data\<close>






section \<open>export_results\<close>

lemma export_results_path:
  "fst (fst (export_results timestamp opportunities path))
     = (if endswith path ''.csv'' then path else path @ ''.csv'')"
  by (simp add: export_results_def Let_def)

text \<open>
  C9, at an input where the code departs from it: for the output name
  \<open>keyword_opportunities\<close>, which has no extension, the file written is
  \<open>keyword_opportunities.csv\<close> whatever the clock reads; the extension is appended, and
  the name carries no timestamp.
\<close>

theorem export_results_ignores_timestamp:
  "export_results timestamp opportunities ''keyword_opportunities''
     = ((''keyword_opportunities.csv'', opportunities),
        ''Results exported to: keyword_opportunities.csv'')"
  by (simp add: export_results_def endswith_def Let_def)

section \<open>generate_summary\<close>

lemma generate_summary_scored:
  assumes "getitem opp ''Avg. monthly searches'' = Inr (Float64 vs)"
    and "getitem opp ''Competition'' = Inr (Float64 cs)"
    and "getitem opp ''Opportunity Score'' = Inr (Float64 ss)"
    and "getitem opp ''Keyword'' = Inr kw"
  shows "generate_summary opp =
           Inr \<lparr>total_opportunities = length (index opp),
                avg_search_volume = mean_skipna vs,
                avg_competition = mean_skipna cs,
                avg_opportunity_score = mean_skipna ss,
                top_keywords = take 5 (tolist kw)\<rparr>"
  using assms getitem_head [OF assms(4), of 5]
  by (simp add: generate_summary_def tolist_series_head)

text \<open>
  The table \<open>analyze_keywords\<close> returns for a table with a Keyword column is such a
  collection: its summary is defined.
\<close>

lemma summary_after_analyze:
  assumes "argsort_desc_contract argsort"
    and "wf_dataframe df"
    and "getitem df ''Competition'' = Inr comp_raw"
    and "getitem df ''Avg. monthly searches'' = Inr (Object vs)"
    and "getitem df ''Top of page bid (low range)'' = Inr (Object bs)"
    and "getitem df ''Keyword'' = Inr kw"
  shows "\<exists>df' opp r. analyze_keywords parse argsort self df = (df', Inr opp) \<and>
           generate_summary opp = Inr r \<and>
           total_opportunities r = length (index opp) \<and>
           length (top_keywords r) \<le> 5"
proof -
  obtain df' opp V C B S where
    run: "analyze_keywords parse argsort self df = (df', Inr opp)"
    and cols: "getitem opp ''Avg. monthly searches'' = Inr (Float64 V)"
      "getitem opp ''Competition'' = Inr (Float64 C)"
      "getitem opp ''Opportunity Score'' = Inr (Float64 S)"
    using analyze_keywords_row_scores [OF assms(1-5), where parse = parse and self = self]
    by blast
  obtain kw' where "getitem opp ''Keyword'' = Inr kw'"
    using analyze_keywords_output_wf [OF assms(1-5), where parse = parse and self = self]
      run assms(6) by auto
  from generate_summary_scored [OF cols this] run show ?thesis by simp
qed

text \<open>
  C6. For a scored collection (consistent, with a Keyword column and numeric volume,
  competition and score columns without missing values) \<open>generate_summary\<close> returns a
  summary and does not raise. Its count is the number of rows and its top keywords are
  the first five of the collection, in its order, fewer if there are fewer. For the
  empty collection the count is zero, the top keywords are the empty list and the means
  are NaN; otherwise the means are the arithmetic means of the three columns.
\<close>

theorem summary_of_scored_collection:
  assumes "wf_dataframe opp"
    and "getitem opp ''Avg. monthly searches'' = Inr (Float64 (map Some vs))"
    and "getitem opp ''Competition'' = Inr (Float64 (map Some cs))"
    and "getitem opp ''Opportunity Score'' = Inr (Float64 (map Some ss))"
    and "getitem opp ''Keyword'' = Inr kw"
  shows "\<exists>r. generate_summary opp = Inr r \<and>
           total_opportunities r = length (index opp) \<and>
           top_keywords r = take 5 (tolist kw) \<and>
           length (top_keywords r) \<le> 5 \<and>
           (if index opp = []
            then total_opportunities r = 0 \<and> top_keywords r = [] \<and>
                 avg_search_volume r = None \<and> avg_competition r = None \<and>
                 avg_opportunity_score r = None
            else avg_search_volume r = Some (sum_list vs / real (length (index opp))) \<and>
                 avg_competition r = Some (sum_list cs / real (length (index opp))) \<and>
                 avg_opportunity_score r = Some (sum_list ss / real (length (index opp))))"
proof -
  have len: "length vs = length (index opp)" "length cs = length (index opp)"
    "length ss = length (index opp)" "length (tolist kw) = length (index opp)"
    using wf_series_len [OF assms(1) assms(2)] wf_series_len [OF assms(1) assms(3)]
      wf_series_len [OF assms(1) assms(4)] wf_series_len [OF assms(1) assms(5)]
    by (simp_all add: length_tolist)
  show ?thesis
    using generate_summary_scored [OF assms(2-5)] len
    by (auto simp: mean_skipna_present)
qed

lemma shoes_opportunities_columns:
  "wf_dataframe shoes_opportunities"
  "getitem shoes_opportunities ''Avg. monthly searches'' = Inr (Float64 (map Some [10000, 1000]))"
  "getitem shoes_opportunities ''Competition'' = Inr (Float64 (map Some [1 / 10, 1 / 10]))"
  "getitem shoes_opportunities ''Opportunity Score'' = Inr (Float64 (map Some [73, 65]))"
  "getitem shoes_opportunities ''Keyword''
     = Inr (Object [Some ''trail shoes'', Some ''running shoes''])"
  by (simp_all add: wf_dataframe_def getitem_def shoes_opportunities_def)

lemma empty_opportunities_columns:
  "wf_dataframe empty_opportunities"
  "getitem empty_opportunities ''Avg. monthly searches'' = Inr (Float64 (map Some []))"
  "getitem empty_opportunities ''Competition'' = Inr (Float64 (map Some []))"
  "getitem empty_opportunities ''Opportunity Score'' = Inr (Float64 (map Some []))"
  "getitem empty_opportunities ''Keyword'' = Inr (Object [])"
  by (simp_all add: wf_dataframe_def getitem_def empty_opportunities_def)

theorem summary_of_scored_collection_witness:
  "generate_summary shoes_opportunities
     = Inr \<lparr>total_opportunities = 2,
            avg_search_volume = Some 5500,
            avg_competition = Some (1 / 10),
            avg_opportunity_score = Some 69,
            top_keywords = [Text ''trail shoes'', Text ''running shoes'']\<rparr> \<and>
   generate_summary empty_opportunities
     = Inr \<lparr>total_opportunities = 0,
            avg_search_volume = None,
            avg_competition = None,
            avg_opportunity_score = None,
            top_keywords = []\<rparr>"
proof -
  have i: "index shoes_opportunities = [1, 0]" "index empty_opportunities = []"
    by (simp_all add: shoes_opportunities_def empty_opportunities_def)
  obtain r where r: "generate_summary shoes_opportunities = Inr r"
    "total_opportunities r = 2"
    "top_keywords r = [Text ''trail shoes'', Text ''running shoes'']"
    "avg_search_volume r = Some 5500" "avg_competition r = Some (1 / 10)"
    "avg_opportunity_score r = Some 69"
    using summary_of_scored_collection [OF shoes_opportunities_columns]
    by (auto simp: i eval_nat_numeral)
  obtain e where e: "generate_summary empty_opportunities = Inr e"
    "total_opportunities e = 0" "top_keywords e = []"
    "avg_search_volume e = None" "avg_competition e = None"
    "avg_opportunity_score e = None"
    using summary_of_scored_collection [OF empty_opportunities_columns]
    by (auto simp: i)
  show ?thesis using r e by simp
qed

end
